theory Spec2Isabelle
  imports Complex_Main
begin

section \<open>Gemini Micro-Cap Trader: portfolio ledger, history track and advisory gateway\<close>

text \<open>
  A shallow embedding of \<^verbatim>\<open>src/App.tsx\<close> (the trade handler \<^verbatim>\<open>executeTrade\<close>, the
  prediction handler \<^verbatim>\<open>fetchPrediction\<close>, the valuation expression) and of the service
  class \<^verbatim>\<open>GeminiTraderService\<close>.

  Numbers. A JavaScript \<^verbatim>\<open>number\<close> is an IEEE double; the specification speaks of real
  balances and prices, and the embedding follows it: \<^verbatim>\<open>number\<close> is \<^typ>\<open>real\<close>, so rounding,
  infinities and NaN are outside the model. The only operation of the ledger that can leave
  the finite numbers on finite inputs is the division in the weighted average cost, and
  the theorem about that quotient assumes a non-zero divisor.

  Time and randomness. \<^verbatim>\<open>new Date()\<close> and \<^verbatim>\<open>Math.random()\<close> are read from an explicit
  environment record.

  State. React state is passed explicitly: a handler takes the state it closes over and
  returns the state after its setters have run. The handlers are modelled for the
  single-writer case in which the value a handler closes over (\<^verbatim>\<open>portfolio\<close>,
  \<^verbatim>\<open>transactions\<close>) is the value its functional updater receives (\<^verbatim>\<open>prev\<close>).
\<close>

subsection \<open>Data model (\<^verbatim>\<open>src/types.ts\<close>)\<close>

datatype TradeType = BUY | SELL

record Transaction =
  id :: string
  type :: TradeType
  ticker :: string
  shares :: real
  price :: real
  timestamp :: string

record Holding =
  ticker :: string
  shares :: real
  avgCost :: real
  currentPrice :: real

text \<open>The optional field \<^verbatim>\<open>isPrediction?: boolean\<close> is absent (\<open>None\<close>) or present.\<close>

record Snapshot =
  timestamp :: string
  totalValue :: real
  isPrediction :: "bool option"

record Portfolio =
  cash :: real
  holdings :: "Holding list"
  history :: "Snapshot list"

text \<open>
  The React state that holds the ledger. Display state (the analysis panel that a trade
  closes with \<^verbatim>\<open>setActiveAnalysis(null)\<close>, the forecast rationale and sources, the busy
  flags) and the copy written to \<^verbatim>\<open>localStorage\<close> are not modelled.
\<close>

record AppState =
  portfolio :: Portfolio
  transactions :: "Transaction list"

text \<open>
  What a call reads from the clock and the random generator:
  \<^verbatim>\<open>new Date().toLocaleTimeString()\<close>, \<^verbatim>\<open>Math.random().toString(36).substr(2, 9)\<close>
  and \<^verbatim>\<open>new Date().toISOString()\<close>.
\<close>

record Env =
  localeTime :: string
  randomId :: string
  isoTime :: string

text \<open>
  How \<^verbatim>\<open>executeTrade\<close> can leave without trading: the bare \<^verbatim>\<open>return\<close> of the guard
  \<^verbatim>\<open>shares <= 0\<close>, or \<^verbatim>\<open>return alert(msg)\<close>, recorded with its message.
\<close>

datatype TradeError = SilentReturn | Alert string

subsection \<open>Array helpers\<close>

text \<open>\<^verbatim>\<open>Array.prototype.findIndex\<close>: the first index whose element satisfies the
  predicate, \<open>-1\<close> when there is none.\<close>

fun findIndex :: "('a \<Rightarrow> bool) \<Rightarrow> 'a list \<Rightarrow> int" where
  "findIndex P [] = - 1"
| "findIndex P (x # xs) =
     (if P x then 0 else (let i = findIndex P xs in if i < 0 then - 1 else i + 1))"

text \<open>\<^verbatim>\<open>xs.splice(i, 1)\<close>: remove the element at index \<open>i\<close>.\<close>

definition splice1 :: "nat \<Rightarrow> 'a list \<Rightarrow> 'a list" where
  "splice1 i xs = take i xs @ drop (Suc i) xs"

text \<open>\<^verbatim>\<open>!h.isPrediction\<close>: true when the flag is absent or false.\<close>

definition notPrediction :: "Snapshot \<Rightarrow> bool" where
  "notPrediction h = (isPrediction h \<noteq> Some True)"

subsection \<open>Valuation\<close>

text \<open>\<^verbatim>\<open>hs.reduce((sum, h) => sum + (h.shares * h.currentPrice), 0)\<close>\<close>

definition holdingsValue :: "Holding list \<Rightarrow> real" where
  "holdingsValue hs = foldl (\<lambda>sum h. sum + (shares h * currentPrice h)) 0 hs"

text \<open>Line 223: \<^verbatim>\<open>const totalValue = portfolio.cash + portfolio.holdings.reduce(...)\<close>.\<close>

definition portfolioTotalValue :: "Portfolio \<Rightarrow> real" where
  "portfolioTotalValue p = cash p + holdingsValue (holdings p)"

subsection \<open>The ledger: \<^verbatim>\<open>executeTrade\<close>\<close>

text \<open>
  The result pairs the reason for leaving early (\<open>None\<close> when the trade went through) with
  the state after the call. The SELL branch decrements \<^verbatim>\<open>newHoldings[index].shares\<close> in
  place and then tests it against zero; here the decremented holding is named \<open>h'\<close>.
\<close>

definition executeTrade ::
  "Env \<Rightarrow> TradeType \<Rightarrow> string \<Rightarrow> real \<Rightarrow> real \<Rightarrow> AppState \<Rightarrow> TradeError option \<times> AppState" where
  "executeTrade env ty tk pr sh st =
    (if sh \<le> 0 then (Some SilentReturn, st)
     else
       let cost = pr * sh;
           prev = portfolio st;
           newHoldings = holdings prev;
           index = findIndex (\<lambda>h. ticker h = tk) newHoldings;
           tx = \<lparr>Transaction.id = randomId env, type = ty, Transaction.ticker = tk,
                 Transaction.shares = sh, price = pr, Transaction.timestamp = isoTime env\<rparr>
       in
       (case ty of
          BUY \<Rightarrow>
            if cash prev < cost then (Some (Alert ''Insufficient cash!''), st)
            else
              let newHoldings' =
                    (if index \<ge> 0 then
                       let h = newHoldings ! nat index;
                           totalShares = shares h + sh;
                           totalCost = (shares h * avgCost h) + (sh * pr)
                       in newHoldings[nat index :=
                            h\<lparr>shares := totalShares, avgCost := totalCost / totalShares,
                              currentPrice := pr\<rparr>]
                     else newHoldings @
                            [\<lparr>ticker = tk, shares = sh, avgCost = pr, currentPrice = pr\<rparr>])
              in (None,
                  st\<lparr>portfolio := prev
                        \<lparr>cash := cash prev - cost,
                         holdings := newHoldings',
                         history := filter notPrediction (history prev) @
                           [\<lparr>timestamp = localeTime env,
                             totalValue = (cash prev - cost) + holdingsValue newHoldings',
                             isPrediction = None\<rparr>]\<rparr>,
                      transactions := tx # transactions st\<rparr>)
        | SELL \<Rightarrow>
            if index < 0 \<or> shares (newHoldings ! nat index) < sh
            then (Some (Alert ''Not enough shares!''), st)
            else
              let h' = (newHoldings ! nat index)\<lparr>shares := shares (newHoldings ! nat index) - sh\<rparr>;
                  newHoldings' =
                    (if shares h' = 0 then splice1 (nat index) newHoldings
                     else newHoldings[nat index := h'])
              in (None,
                  st\<lparr>portfolio := prev
                        \<lparr>cash := cash prev + cost,
                         holdings := newHoldings',
                         history := filter notPrediction (history prev) @
                           [\<lparr>timestamp = localeTime env,
                             totalValue = (cash prev + cost) + holdingsValue newHoldings',
                             isPrediction = None\<rparr>]\<rparr>,
                      transactions := tx # transactions st\<rparr>)))"

subsection \<open>JavaScript values at the gateway boundary\<close>

text \<open>
  \<^verbatim>\<open>JSON.parse\<close> returns \<^verbatim>\<open>any\<close>: the service never checks the parsed document against the
  declared response schema, so the documents it handles are modelled untyped. An object
  is an association list in which the first binding of a key counts.
\<close>

datatype jsval =
    JUndefined
  | JNull
  | JBool bool
  | JNum real
  | JStr string
  | JArr "jsval list"
  | JObj "(string \<times> jsval) list"

text \<open>What a \<^verbatim>\<open>throw\<close> or a rejected promise carries.\<close>

datatype JsError = Error string | TypeError | SyntaxError | Rejected string

fun show_nat :: "nat \<Rightarrow> string" where
  "show_nat n =
     (if n < 10 then [''0123456789'' ! n]
      else show_nat (n div 10) @ [''0123456789'' ! (n mod 10)])"

text \<open>Property read \<^verbatim>\<open>v.k\<close> for the keys the program reads (none of them is a built-in
  property of strings, arrays, numbers or booleans): a \<^verbatim>\<open>TypeError\<close> on \<^verbatim>\<open>null\<close> and
  \<^verbatim>\<open>undefined\<close>, \<^verbatim>\<open>undefined\<close> for a missing key.\<close>

fun getProp :: "jsval \<Rightarrow> string \<Rightarrow> JsError + jsval" where
  "getProp JUndefined k = Inl TypeError"
| "getProp JNull k = Inl TypeError"
| "getProp (JObj kvs) k = Inr (case map_of kvs k of None \<Rightarrow> JUndefined | Some v \<Rightarrow> v)"
| "getProp v k = Inr JUndefined"

text \<open>The own enumerable properties that an object spread \<^verbatim>\<open>{...v}\<close> copies.\<close>

fun ownProps :: "jsval \<Rightarrow> (string \<times> jsval) list" where
  "ownProps (JObj kvs) = kvs"
| "ownProps (JArr xs) = zip (map show_nat [0..<length xs]) xs"
| "ownProps (JStr s) = zip (map show_nat [0..<length s]) (map (\<lambda>c. JStr [c]) s)"
| "ownProps v = []"

text \<open>Writing a key in an object literal: an existing key keeps its place.\<close>

fun setProp :: "string \<Rightarrow> jsval \<Rightarrow> (string \<times> jsval) list \<Rightarrow> (string \<times> jsval) list" where
  "setProp k v [] = [(k, v)]"
| "setProp k v ((k', v') # kvs) =
     (if k' = k then (k, v) # kvs else (k', v') # setProp k v kvs)"

text \<open>\<^verbatim>\<open>String.prototype.trim\<close> on the ASCII white space (tab, line feed, vertical tab,
  form feed, carriage return, space); the Unicode white space beyond ASCII is not modelled.\<close>

definition isSpace :: "char \<Rightarrow> bool" where
  "isSpace c = ((of_char c :: nat) \<in> {9, 10, 11, 12, 13, 32})"

definition trim :: "string \<Rightarrow> string" where
  "trim s = rev (dropWhile isSpace (rev (dropWhile isSpace s)))"

subsection \<open>The advisory gateway: \<^verbatim>\<open>GeminiTraderService\<close>\<close>

text \<open>
  What the service reads of the provider's response: the \<^verbatim>\<open>text\<close> accessor (a string or
  \<^verbatim>\<open>undefined\<close>) and the grounding chunks of the first candidate (the empty list when a
  link of \<^verbatim>\<open>response.candidates?.[0]?.groundingMetadata?.groundingChunks\<close> is missing).
\<close>

record WebRef =
  title :: "string option"
  uri :: "string option"

record GroundingChunk =
  web :: "WebRef option"

record GenerateContentResponse =
  responseText :: "string option"
  groundingChunks :: "GroundingChunk list"

definition sourceOf :: "WebRef \<Rightarrow> jsval" where
  "sourceOf w =
     JObj [(''title'', JStr (case title w of None \<Rightarrow> ''Source''
                                | Some t \<Rightarrow> if t = [] then ''Source'' else t)),
           (''uri'', case uri w of None \<Rightarrow> JUndefined | Some u \<Rightarrow> JStr u)]"

definition extractSources :: "GenerateContentResponse \<Rightarrow> jsval" where
  "extractSources response =
     JArr (map (\<lambda>chunk. sourceOf (the (web chunk)))
            (filter (\<lambda>chunk. web chunk \<noteq> None) (groundingChunks response)))"

text \<open>
  The protected expression \<^verbatim>\<open>JSON.parse(response.text.trim())\<close>. \<^verbatim>\<open>JSON.parse\<close> is a
  parameter: \<open>None\<close> where it throws a \<^verbatim>\<open>SyntaxError\<close>. A missing text makes \<^verbatim>\<open>.trim()\<close>
  throw a \<^verbatim>\<open>TypeError\<close>.
\<close>

definition parseText :: "(string \<Rightarrow> jsval option) \<Rightarrow> GenerateContentResponse \<Rightarrow> JsError + jsval" where
  "parseText JSON_parse response =
     (case responseText response of
        None \<Rightarrow> Inl TypeError
      | Some t \<Rightarrow> (case JSON_parse (trim t) of None \<Rightarrow> Inl SyntaxError | Some data \<Rightarrow> Inr data))"

text \<open>\<^verbatim>\<open>{ ...data, sources }\<close>\<close>

definition withSources :: "jsval \<Rightarrow> jsval \<Rightarrow> jsval" where
  "withSources data sources = JObj (setProp ''sources'' sources (ownProps data))"

text \<open>
  Each method awaits \<^verbatim>\<open>generateContent\<close> outside its \<^verbatim>\<open>try\<close>: the argument \<open>generated\<close> is
  how that promise settled, \<open>Inl\<close> a rejection, which the method passes on. The request
  (prompt and schema) does not influence what the method does with the response.
\<close>

definition searchStock ::
  "(string \<Rightarrow> jsval option) \<Rightarrow> string \<Rightarrow> JsError + GenerateContentResponse \<Rightarrow> JsError + jsval" where
  "searchStock JSON_parse tk generated =
     (case generated of
        Inl e \<Rightarrow> Inl e
      | Inr response \<Rightarrow>
          let sources = extractSources response in
          (case parseText JSON_parse response of
             Inl e \<Rightarrow> Inl (Error (''Failed to find data for ticker: '' @ tk))
           | Inr data \<Rightarrow>
               (case getProp data ''stock'' of
                  Inl e \<Rightarrow> Inl (Error (''Failed to find data for ticker: '' @ tk))
                | Inr stock \<Rightarrow> Inr (JObj [(''stock'', stock), (''sources'', sources)]))))"

definition predictPortfolioValue ::
  "(string \<Rightarrow> jsval option) \<Rightarrow> JsError + GenerateContentResponse \<Rightarrow> JsError + jsval" where
  "predictPortfolioValue JSON_parse generated =
     (case generated of
        Inl e \<Rightarrow> Inl e
      | Inr response \<Rightarrow>
          let sources = extractSources response in
          (case parseText JSON_parse response of
             Inl e \<Rightarrow> Inr (JObj [(''predictions'', JArr []),
                                 (''rationale'', JStr ''Unable to generate forecast at this time.''),
                                 (''sources'', sources)])
           | Inr data \<Rightarrow> Inr (withSources data sources)))"

definition getMarketOverview ::
  "(string \<Rightarrow> jsval option) \<Rightarrow> JsError + GenerateContentResponse \<Rightarrow> JsError + jsval" where
  "getMarketOverview JSON_parse generated =
     (case generated of
        Inl e \<Rightarrow> Inl e
      | Inr response \<Rightarrow>
          let sources = extractSources response in
          (case parseText JSON_parse response of
             Inl e \<Rightarrow> Inr (JObj [(''indices'', JArr []), (''sources'', sources)])
           | Inr data \<Rightarrow> Inr (withSources data sources)))"

definition discoverMicroCaps ::
  "(string \<Rightarrow> jsval option) \<Rightarrow> JsError + GenerateContentResponse \<Rightarrow> JsError + jsval" where
  "discoverMicroCaps JSON_parse generated =
     (case generated of
        Inl e \<Rightarrow> Inl e
      | Inr response \<Rightarrow>
          let sources = extractSources response in
          (case parseText JSON_parse response of
             Inl e \<Rightarrow> Inr (JObj [(''stocks'', JArr []), (''sources'', sources)])
           | Inr data \<Rightarrow> Inr (withSources data sources)))"

definition analyzeStock ::
  "(string \<Rightarrow> jsval option) \<Rightarrow> string \<Rightarrow> JsError + GenerateContentResponse \<Rightarrow> JsError + jsval" where
  "analyzeStock JSON_parse tk generated =
     (case generated of
        Inl e \<Rightarrow> Inl e
      | Inr response \<Rightarrow>
          let sources = extractSources response in
          (case parseText JSON_parse response of
             Inl e \<Rightarrow> Inl (Error ''Failed to analyze stock data'')
           | Inr data \<Rightarrow> Inr (withSources data sources)))"

subsection \<open>The history track: \<^verbatim>\<open>fetchPrediction\<close>\<close>

text \<open>
  \<^verbatim>\<open>p => ({ ...p, isPrediction: true })\<close>, read at the declared element type of
  \<^verbatim>\<open>Portfolio.history\<close>: defined when \<open>p\<close> is an object with a string \<^verbatim>\<open>timestamp\<close> and a
  number \<^verbatim>\<open>totalValue\<close>. Any other element would be stored in the history as it is, which
  the typed history cannot hold; \<open>fetchPrediction\<close> is \<open>None\<close> there.
\<close>

fun tagPrediction :: "jsval \<Rightarrow> Snapshot option" where
  "tagPrediction (JObj kvs) =
     (case (map_of kvs ''timestamp'', map_of kvs ''totalValue'') of
        (Some (JStr t), Some (JNum v)) \<Rightarrow>
          Some \<lparr>timestamp = t, totalValue = v, isPrediction = Some True\<rparr>
      | _ \<Rightarrow> None)"
| "tagPrediction v = None"

text \<open>
  \<open>settled\<close> is how the awaited \<^verbatim>\<open>predictPortfolioValue\<close> settled. Every exception inside
  the \<^verbatim>\<open>try\<close> (a rejection, a property read on \<^verbatim>\<open>null\<close>, \<^verbatim>\<open>.map\<close> on something that is not
  an array) reaches \<^verbatim>\<open>catch (err) { console.error(err) }\<close> before \<^verbatim>\<open>setPortfolio\<close> runs.
\<close>

definition fetchPrediction :: "JsError + jsval \<Rightarrow> Portfolio \<Rightarrow> Portfolio option" where
  "fetchPrediction settled prev =
     (case settled of
        Inl err \<Rightarrow> Some prev
      | Inr result \<Rightarrow>
          (case getProp result ''predictions'' of
             Inl err \<Rightarrow> Some prev
           | Inr (JArr ps) \<Rightarrow>
               (case those (map tagPrediction ps) of
                  None \<Rightarrow> None
                | Some predictions \<Rightarrow>
                    Some (prev\<lparr>history := filter notPrediction (history prev) @ predictions\<rparr>))
           | Inr _ \<Rightarrow> Some prev))"

subsection \<open>Initial state and sample inputs\<close>

text \<open>Line 8 and the fresh portfolio of lines 20 to 24 (and of \<^verbatim>\<open>handleLogin\<close>).\<close>

definition INITIAL_BALANCE :: real where
  "INITIAL_BALANCE = 100"

definition initialPortfolio :: "string \<Rightarrow> Portfolio" where
  "initialPortfolio now =
     \<lparr>cash = INITIAL_BALANCE, holdings = [],
      history = [\<lparr>timestamp = now, totalValue = INITIAL_BALANCE, isPrediction = None\<rparr>]\<rparr>"

text \<open>A concrete environment and the state of a new session, for the examples.\<close>

definition sampleEnv :: Env where
  "sampleEnv = \<lparr>localeTime = ''10:15:00'', randomId = ''k3x9q0zp1'',
                isoTime = ''2025-01-02T10:15:00.000Z''\<rparr>"

definition freshState :: AppState where
  "freshState = \<lparr>portfolio = initialPortfolio ''09:30:00'', transactions = []\<rparr>"

text \<open>States of a session that holds one position, before and after sample trades.\<close>

definition heldState :: AppState where
  "heldState =
     \<lparr>portfolio =
        \<lparr>cash = 100,
         holdings = [\<lparr>ticker = ''ABCD'', shares = 10, avgCost = 5, currentPrice = 5\<rparr>],
         history = [\<lparr>timestamp = ''09:30:00'', totalValue = 150, isPrediction = None\<rparr>,
                    \<lparr>timestamp = ''Day 1'', totalValue = 152, isPrediction = Some True\<rparr>,
                    \<lparr>timestamp = ''Day 2'', totalValue = 155, isPrediction = Some True\<rparr>]\<rparr>,
      transactions = []\<rparr>"

definition boughtState :: AppState where
  "boughtState =
      \<lparr>portfolio =
         \<lparr>cash = 30,
          holdings = [\<lparr>ticker = ''ABCD'', shares = 20, avgCost = 6, currentPrice = 7\<rparr>],
          history = [\<lparr>timestamp = ''09:30:00'', totalValue = 150, isPrediction = None\<rparr>,
                     \<lparr>timestamp = ''10:15:00'', totalValue = 170, isPrediction = None\<rparr>]\<rparr>,
       transactions =
         [\<lparr>Transaction.id = ''k3x9q0zp1'', type = BUY, Transaction.ticker = ''ABCD'',
           Transaction.shares = 10, price = 7,
           Transaction.timestamp = ''2025-01-02T10:15:00.000Z''\<rparr>]\<rparr>"

definition soldState :: AppState where
  "soldState =
      \<lparr>portfolio =
         \<lparr>cash = 220, holdings = [],
          history = [\<lparr>timestamp = ''09:30:00'', totalValue = 150, isPrediction = None\<rparr>,
                     \<lparr>timestamp = ''10:15:00'', totalValue = 220, isPrediction = None\<rparr>]\<rparr>,
       transactions =
         [\<lparr>Transaction.id = ''k3x9q0zp1'', type = SELL, Transaction.ticker = ''ABCD'',
           Transaction.shares = 10, price = 12,
           Transaction.timestamp = ''2025-01-02T10:15:00.000Z''\<rparr>]\<rparr>"

definition partlySoldState :: AppState where
  "partlySoldState =
      \<lparr>portfolio =
         \<lparr>cash = 148,
          holdings = [\<lparr>ticker = ''ABCD'', shares = 6, avgCost = 5, currentPrice = 5\<rparr>],
          history = [\<lparr>timestamp = ''09:30:00'', totalValue = 150, isPrediction = None\<rparr>,
                     \<lparr>timestamp = ''10:15:00'', totalValue = 178, isPrediction = None\<rparr>]\<rparr>,
       transactions =
         [\<lparr>Transaction.id = ''k3x9q0zp1'', type = SELL, Transaction.ticker = ''ABCD'',
           Transaction.shares = 4, price = 12,
           Transaction.timestamp = ''2025-01-02T10:15:00.000Z''\<rparr>]\<rparr>"

text \<open>A stand-in for \<^verbatim>\<open>JSON.parse\<close> in the examples: it agrees with \<^verbatim>\<open>JSON.parse\<close> on the
  documents \<^verbatim>\<open>{}\<close> and \<^verbatim>\<open>null\<close> and on the prose text of \<open>proseResponse\<close>, which is not JSON.\<close>

definition sampleParse :: "string \<Rightarrow> jsval option" where
  "sampleParse s =
     (if s = ''{}'' then Some (JObj [])
      else if s = ''null'' then Some JNull
      else None)"

text \<open>Two responses of the provider: the empty JSON object, and prose instead of JSON
  with one web source.\<close>

definition emptyObjectResponse :: GenerateContentResponse where
  "emptyObjectResponse = \<lparr>responseText = Some '' {} '', groundingChunks = []\<rparr>"

definition proseResponse :: GenerateContentResponse where
  "proseResponse =
     \<lparr>responseText = Some ''Sorry, no forecast.'',
      groundingChunks =
        [\<lparr>web = Some \<lparr>title = None, uri = Some ''https://example.com/a''\<rparr>\<rparr>,
         \<lparr>web = None\<rparr>]\<rparr>"

text \<open>Forecast documents of seven points, and the snapshots they are folded into.\<close>

definition pointJs :: "string \<Rightarrow> real \<Rightarrow> jsval" where
  "pointJs t v = JObj [(''timestamp'', JStr t), (''totalValue'', JNum v)]"

definition pointsA :: "jsval list" where
  "pointsA = [pointJs ''Day 1'' 151, pointJs ''Day 2'' 152, pointJs ''Day 3'' 153,
              pointJs ''Day 4'' 154, pointJs ''Day 5'' 155, pointJs ''Day 6'' 156,
              pointJs ''Day 7'' 157]"

definition pointsB :: "jsval list" where
  "pointsB = [pointJs ''Mon'' 149, pointJs ''Tue'' 148, pointJs ''Wed'' 147,
              pointJs ''Thu'' 146, pointJs ''Fri'' 145, pointJs ''Sat'' 144,
              pointJs ''Sun'' 143]"

definition forecast :: "jsval list \<Rightarrow> jsval" where
  "forecast ps =
     JObj [(''predictions'', JArr ps), (''rationale'', JStr ''Momentum''), (''sources'', JArr [])]"

definition predicted :: "string \<Rightarrow> real \<Rightarrow> Snapshot" where
  "predicted t v = \<lparr>timestamp = t, totalValue = v, isPrediction = Some True\<rparr>"

definition snapshotsA :: "Snapshot list" where
  "snapshotsA = [predicted ''Day 1'' 151, predicted ''Day 2'' 152, predicted ''Day 3'' 153,
                 predicted ''Day 4'' 154, predicted ''Day 5'' 155, predicted ''Day 6'' 156,
                 predicted ''Day 7'' 157]"

definition snapshotsB :: "Snapshot list" where
  "snapshotsB = [predicted ''Mon'' 149, predicted ''Tue'' 148, predicted ''Wed'' 147,
                 predicted ''Thu'' 146, predicted ''Fri'' 145, predicted ''Sat'' 144,
                 predicted ''Sun'' 143]"

section \<open>Properties\<close>

subsection \<open>Auxiliary facts\<close>

lemma findIndex_lower: "- 1 \<le> findIndex P xs"
  by (induction xs) (auto simp: Let_def)

lemma findIndex_neg_iff: "findIndex P xs < 0 \<longleftrightarrow> (\<forall>x\<in>set xs. \<not> P x)"
  using findIndex_lower [of P] by (induction xs) (auto simp: Let_def)

lemma findIndex_nth:
  "0 \<le> findIndex P xs \<Longrightarrow> nat (findIndex P xs) < length xs \<and> P (xs ! nat (findIndex P xs))"
proof (induction xs)
  case Nil
  then show ?case by simp
next
  case (Cons x xs)
  show ?case
  proof (cases "P x")
    case True
    then show ?thesis by simp
  next
    case False
    with Cons.prems have ge: "0 \<le> findIndex P xs"
      by (simp add: Let_def split: if_splits)
    with False have "findIndex P (x # xs) = findIndex P xs + 1"
      by (simp add: Let_def)
    moreover have "nat (findIndex P xs + 1) = Suc (nat (findIndex P xs))"
      using ge by simp
    ultimately show ?thesis
      using Cons.IH [OF ge] by simp
  qed
qed

lemma findIndex_first:
  "0 \<le> findIndex P xs \<Longrightarrow> j < nat (findIndex P xs) \<Longrightarrow> \<not> P (xs ! j)"
proof (induction xs arbitrary: j)
  case Nil
  then show ?case by simp
next
  case (Cons x xs)
  show ?case
  proof (cases "P x")
    case True
    with Cons.prems show ?thesis by simp
  next
    case False
    with Cons.prems have ge: "0 \<le> findIndex P xs"
      by (simp add: Let_def split: if_splits)
    with False have eq: "nat (findIndex P (x # xs)) = Suc (nat (findIndex P xs))"
      by (simp add: Let_def)
    show ?thesis
    proof (cases j)
      case 0
      with False show ?thesis by simp
    next
      case (Suc k)
      with Cons.prems eq have "k < nat (findIndex P xs)" by simp
      from Cons.IH [OF ge this] Suc show ?thesis by simp
    qed
  qed
qed

lemma holdingsValue_sum:
  "holdingsValue hs = (\<Sum>h\<leftarrow>hs. shares h * currentPrice h)"
proof -
  have "foldl (\<lambda>sum h. sum + (shares h * currentPrice h)) a hs =
          a + (\<Sum>h\<leftarrow>hs. shares h * currentPrice h)" for a
    by (induction hs arbitrary: a) simp_all
  then show ?thesis by (simp add: holdingsValue_def)
qed

lemma executeTrade_history:
  assumes "executeTrade env ty tk pr sh st = (None, st')"
  shows "history (portfolio st') =
           filter notPrediction (history (portfolio st)) @
             [\<lparr>timestamp = localeTime env,
               totalValue = cash (portfolio st') + holdingsValue (holdings (portfolio st')),
               isPrediction = None\<rparr>]"
  using assms
  by (cases ty) (auto simp: executeTrade_def Let_def split: if_splits)

lemma findIndex_eq_int:
  assumes "findIndex P xs = int i"
  shows "i < length xs" and "P (xs ! i)" and "\<forall>j<i. \<not> P (xs ! j)"
proof -
  from assms have ge: "0 \<le> findIndex P xs" and i: "nat (findIndex P xs) = i" by simp_all
  from findIndex_nth [OF ge] i show "i < length xs" and "P (xs ! i)" by simp_all
  from findIndex_first [OF ge] i show "\<forall>j<i. \<not> P (xs ! j)" by simp
qed

lemma findIndex_absent:
  "tk \<notin> ticker ` set hs \<Longrightarrow> findIndex (\<lambda>h. ticker h = tk) hs < 0"
  by (auto simp: findIndex_neg_iff)

lemma sum_list_map_update:
  fixes f :: "'a \<Rightarrow> real"
  shows "i < length xs \<Longrightarrow>
    (\<Sum>x\<leftarrow>xs[i := y]. f x) = (\<Sum>x\<leftarrow>xs. f x) - f (xs ! i) + f y"
proof (induction xs arbitrary: i)
  case Nil
  then show ?case by simp
next
  case (Cons x xs)
  then show ?case by (cases i) simp_all
qed

lemma distinct_first_only:
  assumes "distinct (map f xs)" and "i < length xs"
  shows "f (xs ! i) \<notin> f ` set (take i xs @ drop (Suc i) xs)"
proof -
  have xs: "xs = take i xs @ xs ! i # drop (Suc i) xs"
    using assms(2) by (rule id_take_nth_drop)
  have "distinct (map f (take i xs @ xs ! i # drop (Suc i) xs))"
    using assms(1) xs by simp
  then show ?thesis by auto
qed

lemma freshState_buy:
  "executeTrade sampleEnv BUY ''ABCD'' 10 5 freshState =
     (None,
      \<lparr>portfolio =
         \<lparr>cash = 50,
          holdings = [\<lparr>ticker = ''ABCD'', shares = 5, avgCost = 10, currentPrice = 10\<rparr>],
          history = [\<lparr>timestamp = ''09:30:00'', totalValue = 100, isPrediction = None\<rparr>,
                     \<lparr>timestamp = ''10:15:00'', totalValue = 100, isPrediction = None\<rparr>]\<rparr>,
       transactions =
         [\<lparr>Transaction.id = ''k3x9q0zp1'', type = BUY, Transaction.ticker = ''ABCD'',
           Transaction.shares = 5, price = 10,
           Transaction.timestamp = ''2025-01-02T10:15:00.000Z''\<rparr>]\<rparr>)"
  by (simp add: executeTrade_def freshState_def initialPortfolio_def INITIAL_BALANCE_def
      sampleEnv_def notPrediction_def holdingsValue_def Let_def)

lemma heldState_buy:
  "executeTrade sampleEnv BUY ''ABCD'' 7 10 heldState = (None, boughtState)"
  by (simp add: executeTrade_def heldState_def boughtState_def sampleEnv_def notPrediction_def
      holdingsValue_def Let_def)

lemma heldState_index:
  "findIndex (\<lambda>h. ticker h = ''ABCD'') (holdings (portfolio heldState)) = int 0"
  by (simp add: heldState_def)

lemma executeTrade_sell:
  assumes "findIndex (\<lambda>h. ticker h = tk) (holdings (portfolio st)) = int i"
    and "0 < sh" and "sh \<le> shares (holdings (portfolio st) ! i)"
  shows "executeTrade env SELL tk pr sh st =
    (None,
     st\<lparr>portfolio := (portfolio st)
          \<lparr>cash := cash (portfolio st) + pr * sh,
           holdings :=
             (if shares (holdings (portfolio st) ! i) - sh = 0
              then splice1 i (holdings (portfolio st))
              else (holdings (portfolio st))
                     [i := (holdings (portfolio st) ! i)
                        \<lparr>shares := shares (holdings (portfolio st) ! i) - sh\<rparr>]),
           history := filter notPrediction (history (portfolio st)) @
             [\<lparr>timestamp = localeTime env,
               totalValue = (cash (portfolio st) + pr * sh) + holdingsValue
                 (if shares (holdings (portfolio st) ! i) - sh = 0
                  then splice1 i (holdings (portfolio st))
                  else (holdings (portfolio st))
                     [i := (holdings (portfolio st) ! i)
                        \<lparr>shares := shares (holdings (portfolio st) ! i) - sh\<rparr>]),
               isPrediction = None\<rparr>]\<rparr>,
        transactions :=
          \<lparr>Transaction.id = randomId env, type = SELL, Transaction.ticker = tk,
            Transaction.shares = sh, price = pr, Transaction.timestamp = isoTime env\<rparr>
          # transactions st\<rparr>)"
  using assms by (simp add: executeTrade_def Let_def)

lemma heldState_sell_all:
  "executeTrade sampleEnv SELL ''ABCD'' 12 10 heldState = (None, soldState)"
  by (simp add: executeTrade_def heldState_def soldState_def sampleEnv_def notPrediction_def
      holdingsValue_def splice1_def Let_def)

lemma heldState_sell_part:
  "executeTrade sampleEnv SELL ''ABCD'' 12 4 heldState = (None, partlySoldState)"
  by (simp add: executeTrade_def heldState_def partlySoldState_def sampleEnv_def
      notPrediction_def holdingsValue_def splice1_def Let_def)

lemma those_Some_length:
  "those xs = Some ys \<Longrightarrow> length ys = length xs \<and> (\<forall>k<length xs. xs ! k = Some (ys ! k))"
proof (induction xs arbitrary: ys)
  case Nil
  then show ?case by simp
next
  case (Cons x xs)
  from Cons.prems obtain y zs where x: "x = Some y" and zs: "those xs = Some zs" and ys: "ys = y # zs"
    by (auto split: option.splits)
  from Cons.IH [OF zs] x ys show ?case
    by (auto simp: nth_Cons split: nat.splits)
qed

lemma tagPrediction_flag: "tagPrediction p = Some s \<Longrightarrow> isPrediction s = Some True"
  by (cases p) (auto split: option.splits jsval.splits)

lemma those_tagged:
  assumes "those (map tagPrediction ps) = Some snaps"
  shows "length snaps = length ps"
    and "\<forall>k<length ps. tagPrediction (ps ! k) = Some (snaps ! k)"
    and "\<forall>s\<in>set snaps. isPrediction s = Some True"
    and "filter notPrediction snaps = []"
proof -
  from those_Some_length [OF assms]
  show len: "length snaps = length ps"
    and nth: "\<forall>k<length ps. tagPrediction (ps ! k) = Some (snaps ! k)"
    by simp_all
  show flag: "\<forall>s\<in>set snaps. isPrediction s = Some True"
  proof
    fix s assume "s \<in> set snaps"
    then obtain k where "k < length snaps" and "snaps ! k = s"
      by (auto simp: in_set_conv_nth)
    with len nth have "tagPrediction (ps ! k) = Some s" by simp
    then show "isPrediction s = Some True" by (rule tagPrediction_flag)
  qed
  then show "filter notPrediction snaps = []"
    by (simp add: filter_empty_conv notPrediction_def)
qed

lemma fetchPrediction_fold:
  assumes "getProp result ''predictions'' = Inr (JArr ps)"
    and "those (map tagPrediction ps) = Some snaps"
  shows "fetchPrediction (Inr result) prev =
           Some (prev\<lparr>history := filter notPrediction (history prev) @ snaps\<rparr>)"
  using assms by (simp add: fetchPrediction_def)

lemma tagPrediction_pointJs: "tagPrediction (pointJs t v) = Some (predicted t v)"
  by (simp add: pointJs_def predicted_def)

lemma sample_forecasts:
  "getProp (forecast ps) ''predictions'' = Inr (JArr ps)"
  "those (map tagPrediction pointsA) = Some snapshotsA"
  "those (map tagPrediction pointsB) = Some snapshotsB"
  by (simp_all add: forecast_def pointsA_def pointsB_def snapshotsA_def snapshotsB_def
      tagPrediction_pointJs)

lemma parseText_fails:
  assumes "responseText response = None
           \<or> (\<exists>t. responseText response = Some t \<and> JSON_parse (trim t) = None)"
  shows "\<exists>e. parseText JSON_parse response = Inl e"
  using assms by (auto simp: parseText_def)

text \<open>
  The invariants of the data model on holdings (tickers are unique, share counts are
  positive) are kept by every trade that goes through, so they hold in every state
  reached from a fresh portfolio.
\<close>

lemma distinct_map_remove_nth:
  assumes "distinct (map f xs)"
  shows "distinct (map f (take i xs @ drop (Suc i) xs))"
proof (cases "i < length xs")
  case True
  then have "xs = take i xs @ xs ! i # drop (Suc i) xs"
    by (rule id_take_nth_drop)
  with assms have "distinct (map f (take i xs @ xs ! i # drop (Suc i) xs))" by simp
  then show ?thesis by auto
next
  case False
  with assms show ?thesis by simp
qed

lemma map_ticker_update:
  "i < length hs \<Longrightarrow> ticker h = ticker (hs ! i) \<Longrightarrow> map ticker (hs[i := h]) = map ticker hs"
  by (simp add: map_update list_update_same_conv)

lemma executeTrade_holdings_cases:
  assumes "executeTrade env ty tk pr sh st = (None, st')"
  obtains
    (append) "tk \<notin> ticker ` set (holdings (portfolio st))"
      "holdings (portfolio st') =
         holdings (portfolio st) @ [\<lparr>ticker = tk, shares = sh, avgCost = pr, currentPrice = pr\<rparr>]"
  | (update) i h' where "i < length (holdings (portfolio st))"
      "ticker h' = ticker (holdings (portfolio st) ! i)"
      "0 < shares (holdings (portfolio st) ! i) \<longrightarrow> 0 < shares h'"
      "holdings (portfolio st') = (holdings (portfolio st))[i := h']"
  | (remove) i where "i < length (holdings (portfolio st))"
      "holdings (portfolio st') =
         take i (holdings (portfolio st)) @ drop (Suc i) (holdings (portfolio st))"
proof -
  let ?hs = "holdings (portfolio st)"
  let ?ix = "findIndex (\<lambda>h. ticker h = tk) ?hs"
  from assms have pos: "0 < sh"
    by (auto simp: executeTrade_def Let_def split: if_splits)
  show thesis
  proof (cases "0 \<le> ?ix")
    case False
    then have absent: "tk \<notin> ticker ` set ?hs"
      using findIndex_neg_iff [of "\<lambda>h. ticker h = tk" ?hs] by auto
    from assms False pos have "ty = BUY"
      by (cases ty) (auto simp: executeTrade_def Let_def split: if_splits)
    with assms False pos
    have "holdings (portfolio st') =
        ?hs @ [\<lparr>ticker = tk, shares = sh, avgCost = pr, currentPrice = pr\<rparr>]"
      by (auto simp: executeTrade_def Let_def split: if_splits)
    with absent show thesis by (rule append)
  next
    case True
    from findIndex_nth [OF True] have in_range: "nat ?ix < length ?hs" by simp
    show thesis
    proof (cases ty)
      case BUY
      let ?h' = "(?hs ! nat ?ix)
        \<lparr>shares := shares (?hs ! nat ?ix) + sh,
         avgCost := (shares (?hs ! nat ?ix) * avgCost (?hs ! nat ?ix) + sh * pr)
                    / (shares (?hs ! nat ?ix) + sh),
         currentPrice := pr\<rparr>"
      from assms BUY True pos have "holdings (portfolio st') = ?hs[nat ?ix := ?h']"
        by (auto simp: executeTrade_def Let_def split: if_splits)
      moreover have "ticker ?h' = ticker (?hs ! nat ?ix)" by simp
      moreover have "0 < shares (?hs ! nat ?ix) \<longrightarrow> 0 < shares ?h'"
        using pos by simp
      ultimately show thesis using in_range update by blast
    next
      case SELL
      let ?h' = "(?hs ! nat ?ix)\<lparr>shares := shares (?hs ! nat ?ix) - sh\<rparr>"
      from assms SELL True pos have le: "sh \<le> shares (?hs ! nat ?ix)"
        and hs': "holdings (portfolio st') =
          (if shares (?hs ! nat ?ix) - sh = 0 then splice1 (nat ?ix) ?hs
           else ?hs[nat ?ix := ?h'])"
        by (auto simp: executeTrade_def Let_def split: if_splits)
      show thesis
      proof (cases "shares (?hs ! nat ?ix) - sh = 0")
        case True
        with hs' in_range show thesis
          by (intro remove [of "nat ?ix"]) (simp_all add: splice1_def)
      next
        case False
        with le have "0 < shares ?h'" by simp
        moreover have "ticker ?h' = ticker (?hs ! nat ?ix)" by simp
        moreover from hs' False have "holdings (portfolio st') = ?hs[nat ?ix := ?h']" by simp
        ultimately show thesis using in_range update by blast
      qed
    qed
  qed
qed

lemma executeTrade_keeps_invariants:
  assumes "executeTrade env ty tk pr sh st = (None, st')"
    and "distinct (map ticker (holdings (portfolio st)))"
    and "\<forall>h\<in>set (holdings (portfolio st)). 0 < shares h"
  shows "distinct (map ticker (holdings (portfolio st')))"
    and "\<forall>h\<in>set (holdings (portfolio st')). 0 < shares h"
proof -
  let ?hs = "holdings (portfolio st)"
  from assms(1) have pos: "0 < sh"
    by (auto simp: executeTrade_def Let_def split: if_splits)
  from assms(1)
  have "distinct (map ticker (holdings (portfolio st')))
      \<and> (\<forall>h\<in>set (holdings (portfolio st')). 0 < shares h)"
  proof (cases rule: executeTrade_holdings_cases)
    case append
    with assms(2,3) pos show ?thesis by auto
  next
    case (update i h')
    from update(1) assms(3) have "0 < shares (?hs ! i)" by simp
    with update(3) have "0 < shares h'" by simp
    with assms(3) update(4) set_update_subset_insert [of ?hs i h']
    have "\<forall>h\<in>set (holdings (portfolio st')). 0 < shares h"
      by auto
    with assms(2) update show ?thesis
      by (simp add: map_ticker_update)
  next
    case (remove i)
    have "set (take i ?hs @ drop (Suc i) ?hs) \<subseteq> set ?hs"
      using set_take_subset [of i ?hs] set_drop_subset [of "Suc i" ?hs] by auto
    with assms(3) remove(2) have "\<forall>h\<in>set (holdings (portfolio st')). 0 < shares h"
      by auto
    moreover from assms(2) remove(2) have "distinct (map ticker (holdings (portfolio st')))"
      by (simp only: distinct_map_remove_nth)
    ultimately show ?thesis by simp
  qed
  then show "distinct (map ticker (holdings (portfolio st')))"
    and "\<forall>h\<in>set (holdings (portfolio st')). 0 < shares h"
    by simp_all
qed

subsection \<open>Ledger\<close>

text \<open>
  C1 (conservation). Whenever \<open>executeTrade\<close> goes through (BUY or SELL), the history after
  the trade is the old history without its prediction snapshots followed by one new
  snapshot; that snapshot is an actual one, and its \<open>totalValue\<close> is the cash after the
  trade plus the sum, over the holdings after the trade, of shares times current price,
  which is the valuation \<open>portfolioTotalValue\<close> of the new portfolio.
\<close>

theorem executeTrade_conservation:
  assumes "executeTrade env ty tk pr sh st = (None, st')"
  shows "history (portfolio st') =
           filter notPrediction (history (portfolio st)) @ [last (history (portfolio st'))]
         \<and> isPrediction (last (history (portfolio st'))) = None
         \<and> totalValue (last (history (portfolio st'))) =
             cash (portfolio st') + (\<Sum>h\<leftarrow>holdings (portfolio st'). shares h * currentPrice h)
         \<and> totalValue (last (history (portfolio st'))) = portfolioTotalValue (portfolio st')"
proof -
  from executeTrade_history [OF assms]
  show ?thesis
    by (simp add: portfolioTotalValue_def holdingsValue_sum)
qed

theorem executeTrade_conservation_witness:
  "fst (executeTrade sampleEnv BUY ''ABCD'' 10 5 freshState) = None
   \<and> totalValue (last (history (portfolio (snd (executeTrade sampleEnv BUY ''ABCD'' 10 5 freshState))))) = 100
   \<and> portfolioTotalValue (portfolio (snd (executeTrade sampleEnv BUY ''ABCD'' 10 5 freshState))) = 100"
  using executeTrade_conservation [OF freshState_buy] freshState_buy
  by simp

text \<open>
  C3 (insufficient funds). A BUY whose cost \<open>price * shares\<close> exceeds the cash is refused
  with the notice \<^verbatim>\<open>Insufficient cash!\<close> (the specification's \<open>InsufficientFunds\<close>) and
  returns the state it was given: cash, holdings, history and transaction log are all
  unchanged. The request satisfies the contract's precondition \<open>shares > 0\<close>, or the cash
  and the price are non-negative as the data model requires (which forces \<open>shares > 0\<close>
  once the cost exceeds the cash).
\<close>

theorem buy_insufficient_funds:
  assumes "cash (portfolio st) < pr * sh"
    and "0 < sh \<or> (0 \<le> cash (portfolio st) \<and> 0 \<le> pr)"
  shows "executeTrade env BUY tk pr sh st = (Some (Alert ''Insufficient cash!''), st)"
proof -
  have "0 < sh"
  proof (rule ccontr)
    assume "\<not> 0 < sh"
    with assms(2) have "sh \<le> 0" "0 \<le> cash (portfolio st)" "0 \<le> pr" by auto
    then have "pr * sh \<le> 0" by (simp add: mult_nonneg_nonpos)
    with assms(1) \<open>0 \<le> cash (portfolio st)\<close> show False by simp
  qed
  with assms(1) show ?thesis
    by (simp add: executeTrade_def Let_def)
qed

theorem buy_insufficient_funds_witness:
  "cash (portfolio freshState) < 30 * 4
   \<and> executeTrade sampleEnv BUY ''ABCD'' 30 4 freshState =
       (Some (Alert ''Insufficient cash!''), freshState)"
proof -
  have less: "cash (portfolio freshState) < 30 * 4"
    by (simp add: freshState_def initialPortfolio_def INITIAL_BALANCE_def)
  have pre: "(0::real) < 4 \<or> (0 \<le> cash (portfolio freshState) \<and> (0::real) \<le> 30)"
    by simp
  from buy_insufficient_funds [OF less pre] less show ?thesis by simp
qed

text \<open>
  C2 (cost basis). After a BUY that went through, \<open>price * shares\<close> has been deducted
  from the cash. If the ticker was held (first at index \<open>i\<close>, with a positive share
  count), that holding now has \<open>oldShares + shares\<close> shares, average cost
  \<open>(oldShares * oldAvgCost + shares * price) / (oldShares + shares)\<close> and current price
  \<open>price\<close>, every other holding being untouched; in particular 10 shares at average cost
  5 plus 10 more at 7 give 20 shares at average cost 6. If the ticker was not held, a
  holding with \<open>avgCost = currentPrice = price\<close> is appended.
\<close>

theorem buy_weighted_average_cost:
  assumes "executeTrade env BUY tk pr sh st = (None, st')"
  shows "cash (portfolio st') = cash (portfolio st) - pr * sh
    \<and> (\<forall>i. findIndex (\<lambda>h. ticker h = tk) (holdings (portfolio st)) = int i
            \<and> 0 < shares (holdings (portfolio st) ! i) \<longrightarrow>
          holdings (portfolio st') =
            (holdings (portfolio st))
              [i := (holdings (portfolio st) ! i)
                 \<lparr>shares := shares (holdings (portfolio st) ! i) + sh,
                  avgCost := (shares (holdings (portfolio st) ! i)
                                * avgCost (holdings (portfolio st) ! i) + sh * pr)
                             / (shares (holdings (portfolio st) ! i) + sh),
                  currentPrice := pr\<rparr>]
          \<and> (shares (holdings (portfolio st) ! i) = 10
               \<and> avgCost (holdings (portfolio st) ! i) = 5 \<and> sh = 10 \<and> pr = 7 \<longrightarrow>
             shares (holdings (portfolio st') ! i) = 20
             \<and> avgCost (holdings (portfolio st') ! i) = 6))
    \<and> (tk \<notin> ticker ` set (holdings (portfolio st)) \<longrightarrow>
          holdings (portfolio st') =
            holdings (portfolio st) @
              [\<lparr>ticker = tk, shares = sh, avgCost = pr, currentPrice = pr\<rparr>])"
proof -
  from assms have pos: "0 < sh" and funds: "\<not> cash (portfolio st) < pr * sh"
    by (auto simp: executeTrade_def Let_def split: if_splits)
  have cash: "cash (portfolio st') = cash (portfolio st) - pr * sh"
    using assms pos funds by (auto simp: executeTrade_def Let_def split: if_splits)
  have held: "holdings (portfolio st') =
      (holdings (portfolio st))
        [i := (holdings (portfolio st) ! i)
           \<lparr>shares := shares (holdings (portfolio st) ! i) + sh,
            avgCost := (shares (holdings (portfolio st) ! i)
                          * avgCost (holdings (portfolio st) ! i) + sh * pr)
                       / (shares (holdings (portfolio st) ! i) + sh),
            currentPrice := pr\<rparr>]"
    if "findIndex (\<lambda>h. ticker h = tk) (holdings (portfolio st)) = int i" for i
    using assms pos funds that by (auto simp: executeTrade_def Let_def)
  have example: "shares (holdings (portfolio st') ! i) = 20
      \<and> avgCost (holdings (portfolio st') ! i) = 6"
    if "findIndex (\<lambda>h. ticker h = tk) (holdings (portfolio st)) = int i"
      and "shares (holdings (portfolio st) ! i) = 10"
      and "avgCost (holdings (portfolio st) ! i) = 5" and "sh = 10" and "pr = 7" for i
  proof -
    from findIndex_eq_int(1) [OF that(1)] have "i < length (holdings (portfolio st))" .
    then show ?thesis
      using held [OF that(1)] that(2-5) by simp
  qed
  have fresh: "holdings (portfolio st') =
      holdings (portfolio st) @ [\<lparr>ticker = tk, shares = sh, avgCost = pr, currentPrice = pr\<rparr>]"
    if "tk \<notin> ticker ` set (holdings (portfolio st))"
    using assms pos funds findIndex_absent [OF that]
    by (auto simp: executeTrade_def Let_def)
  from cash held example fresh show ?thesis by blast
qed

theorem buy_weighted_average_cost_witness:
  "executeTrade sampleEnv BUY ''ABCD'' 7 10 heldState = (None, boughtState)
   \<and> findIndex (\<lambda>h. ticker h = ''ABCD'') (holdings (portfolio heldState)) = int 0
   \<and> shares (holdings (portfolio heldState) ! 0) = 10
   \<and> avgCost (holdings (portfolio heldState) ! 0) = 5
   \<and> shares (holdings (portfolio boughtState) ! 0) = 20
   \<and> avgCost (holdings (portfolio boughtState) ! 0) = 6
   \<and> cash (portfolio boughtState) = cash (portfolio heldState) - 7 * 10"
proof -
  note T = buy_weighted_average_cost [OF heldState_buy]
  have old: "shares (holdings (portfolio heldState) ! 0) = 10"
    "avgCost (holdings (portfolio heldState) ! 0) = 5"
    by (simp_all add: heldState_def)
  have "shares (holdings (portfolio boughtState) ! 0) = 20
      \<and> avgCost (holdings (portfolio boughtState) ! 0) = 6"
    using T [THEN conjunct2, THEN conjunct1, THEN spec, of 0] heldState_index
    by (simp add: heldState_def boughtState_def)
  with T [THEN conjunct1] heldState_buy heldState_index old show ?thesis
    by simp
qed

text \<open>
  C4 (a trade invalidates the forecast). After any trade that went through, the history is
  the old history with every snapshot flagged \<open>isPrediction\<close> removed, the others kept as
  they were and in their order, followed by exactly one new snapshot, which is not flagged.
  When the old history was an actual prefix followed by a prediction suffix, what
  precedes the new snapshot is exactly that prefix.
\<close>

theorem trade_invalidates_forecast:
  assumes "executeTrade env ty tk pr sh st = (None, st')"
  shows "history (portfolio st') =
           filter notPrediction (history (portfolio st)) @
             [\<lparr>timestamp = localeTime env,
               totalValue = portfolioTotalValue (portfolio st'),
               isPrediction = None\<rparr>]
    \<and> (\<forall>h\<in>set (history (portfolio st')). isPrediction h \<noteq> Some True)
    \<and> length (history (portfolio st')) =
        Suc (length (filter notPrediction (history (portfolio st))))
    \<and> (\<forall>actuals preds.
          history (portfolio st) = actuals @ preds
          \<and> (\<forall>h\<in>set actuals. isPrediction h \<noteq> Some True)
          \<and> (\<forall>h\<in>set preds. isPrediction h = Some True) \<longrightarrow>
          butlast (history (portfolio st')) = actuals)"
proof -
  let ?snap = "\<lparr>timestamp = localeTime env,
                 totalValue = portfolioTotalValue (portfolio st'),
                 isPrediction = None\<rparr>"
  have h: "history (portfolio st') = filter notPrediction (history (portfolio st)) @ [?snap]"
    using executeTrade_history [OF assms] by (simp add: portfolioTotalValue_def)
  have none: "\<forall>h\<in>set (history (portfolio st')). isPrediction h \<noteq> Some True"
    unfolding h by (auto simp: notPrediction_def)
  have len: "length (history (portfolio st')) =
      Suc (length (filter notPrediction (history (portfolio st))))"
    unfolding h by simp
  have split: "butlast (history (portfolio st')) = actuals"
    if "history (portfolio st) = actuals @ preds"
      and "\<forall>h\<in>set actuals. isPrediction h \<noteq> Some True"
      and "\<forall>h\<in>set preds. isPrediction h = Some True" for actuals preds
  proof -
    from that(2) have "filter notPrediction actuals = actuals"
      by (simp add: notPrediction_def filter_id_conv)
    moreover from that(3) have "filter notPrediction preds = []"
      by (simp add: notPrediction_def filter_empty_conv)
    ultimately show ?thesis
      unfolding h that(1) by simp
  qed
  from h none len split show ?thesis by blast
qed

theorem trade_invalidates_forecast_witness:
  "executeTrade sampleEnv BUY ''ABCD'' 7 10 heldState = (None, boughtState)
   \<and> length (history (portfolio heldState)) = 3
   \<and> history (portfolio boughtState) =
       [hd (history (portfolio heldState)),
        \<lparr>timestamp = ''10:15:00'', totalValue = 170, isPrediction = None\<rparr>]"
proof -
  note T = trade_invalidates_forecast [OF heldState_buy]
  have "portfolioTotalValue (portfolio boughtState) = 170"
    by (simp add: boughtState_def portfolioTotalValue_def holdingsValue_def)
  with T [THEN conjunct1] heldState_buy show ?thesis
    by (simp add: heldState_def sampleEnv_def notPrediction_def)
qed

text \<open>
  C6, as stated, fails: a SELL of a ticker that is not held and a SELL of more shares than
  are held leave through the same guard with the same notice \<^verbatim>\<open>Not enough shares!\<close>, so
  the code has no error for \<open>NoPosition\<close> that is distinct from \<open>InsufficientShares\<close>.
\<close>

theorem sell_errors_not_distinct:
  "''WXYZ'' \<notin> ticker ` set (holdings (portfolio heldState))
   \<and> executeTrade sampleEnv SELL ''WXYZ'' 5 1 heldState =
       (Some (Alert ''Not enough shares!''), heldState)
   \<and> ticker (hd (holdings (portfolio heldState))) = ''ABCD''
   \<and> shares (hd (holdings (portfolio heldState))) < 11
   \<and> executeTrade sampleEnv SELL ''ABCD'' 5 11 heldState =
       (Some (Alert ''Not enough shares!''), heldState)
   \<and> fst (executeTrade sampleEnv SELL ''WXYZ'' 5 1 heldState) =
       fst (executeTrade sampleEnv SELL ''ABCD'' 5 11 heldState)"
  by (simp add: executeTrade_def heldState_def Let_def)

text \<open>
  C6, amended. For a SELL request with \<open>shares > 0\<close>: when the ticker is not held, and
  when it is held (first at index \<open>i\<close>) with fewer shares than requested, the trade is
  refused with one and the same notice \<^verbatim>\<open>Not enough shares!\<close>, and the state returned is
  the state given.
\<close>

theorem sell_rejected:
  assumes "0 < sh"
  shows "(tk \<notin> ticker ` set (holdings (portfolio st)) \<longrightarrow>
            executeTrade env SELL tk pr sh st = (Some (Alert ''Not enough shares!''), st))
    \<and> (\<forall>i. findIndex (\<lambda>h. ticker h = tk) (holdings (portfolio st)) = int i
            \<and> shares (holdings (portfolio st) ! i) < sh \<longrightarrow>
            executeTrade env SELL tk pr sh st = (Some (Alert ''Not enough shares!''), st))"
proof (intro conjI impI allI)
  assume "tk \<notin> ticker ` set (holdings (portfolio st))"
  from findIndex_absent [OF this] assms
  show "executeTrade env SELL tk pr sh st = (Some (Alert ''Not enough shares!''), st)"
    by (simp add: executeTrade_def Let_def)
next
  fix i
  assume "findIndex (\<lambda>h. ticker h = tk) (holdings (portfolio st)) = int i
          \<and> shares (holdings (portfolio st) ! i) < sh"
  with assms
  show "executeTrade env SELL tk pr sh st = (Some (Alert ''Not enough shares!''), st)"
    by (simp add: executeTrade_def Let_def)
qed

theorem sell_rejected_witness:
  "(0::real) < 1 \<and> ''WXYZ'' \<notin> ticker ` set (holdings (portfolio heldState))
   \<and> executeTrade sampleEnv SELL ''WXYZ'' 5 1 heldState =
       (Some (Alert ''Not enough shares!''), heldState)
   \<and> findIndex (\<lambda>h. ticker h = ''ABCD'') (holdings (portfolio heldState)) = int 0
   \<and> shares (holdings (portfolio heldState) ! 0) < 11
   \<and> executeTrade sampleEnv SELL ''ABCD'' 5 11 heldState =
       (Some (Alert ''Not enough shares!''), heldState)"
proof -
  have a: "''WXYZ'' \<notin> ticker ` set (holdings (portfolio heldState))"
    and b: "shares (holdings (portfolio heldState) ! 0) < 11"
    by (simp_all add: heldState_def)
  have p1: "(0::real) < 1" and p11: "(0::real) < 11" by simp_all
  from sell_rejected [OF p1, THEN conjunct1, rule_format, OF a]
  have "executeTrade sampleEnv SELL ''WXYZ'' 5 1 heldState =
       (Some (Alert ''Not enough shares!''), heldState)" .
  moreover from sell_rejected [OF p11, THEN conjunct2, rule_format, of "''ABCD''" heldState 0]
    heldState_index b
  have "executeTrade sampleEnv SELL ''ABCD'' 5 11 heldState =
       (Some (Alert ''Not enough shares!''), heldState)"
    by blast
  ultimately show ?thesis using a b heldState_index by simp
qed

text \<open>
  C7 (SELL). A SELL with \<open>0 < shares \<le> held\<close> of a ticker held at index \<open>i\<close> goes through
  and credits \<open>price * shares\<close> to the cash. If fewer shares than held are sold, the
  holding stays with its share count decremented. If all are sold, the holding is removed
  from the list, so that share counts stay positive; and when tickers are unique in the
  holdings (the data-model invariant), the ticker is no longer held and every later SELL of
  it is refused with the notice of a missing position, \<^verbatim>\<open>Not enough shares!\<close>.
\<close>

theorem sell_full_close:
  assumes "findIndex (\<lambda>h. ticker h = tk) (holdings (portfolio st)) = int i"
    and "0 < sh" and "sh \<le> shares (holdings (portfolio st) ! i)"
    and "executeTrade env SELL tk pr sh st = (r, st')"
  shows "r = None
    \<and> cash (portfolio st') = cash (portfolio st) + pr * sh
    \<and> (sh < shares (holdings (portfolio st) ! i) \<longrightarrow>
          holdings (portfolio st') =
            (holdings (portfolio st))
              [i := (holdings (portfolio st) ! i)
                 \<lparr>shares := shares (holdings (portfolio st) ! i) - sh\<rparr>])
    \<and> (sh = shares (holdings (portfolio st) ! i) \<longrightarrow>
          holdings (portfolio st') =
            take i (holdings (portfolio st)) @ drop (Suc i) (holdings (portfolio st)))
    \<and> ((\<forall>h\<in>set (holdings (portfolio st)). 0 < shares h) \<longrightarrow>
          (\<forall>h\<in>set (holdings (portfolio st')). 0 < shares h))
    \<and> (sh = shares (holdings (portfolio st) ! i)
          \<and> distinct (map ticker (holdings (portfolio st))) \<longrightarrow>
          tk \<notin> ticker ` set (holdings (portfolio st'))
          \<and> (\<forall>env' pr' sh'. 0 < sh' \<longrightarrow>
                executeTrade env' SELL tk pr' sh' st' =
                  (Some (Alert ''Not enough shares!''), st')))"
proof -
  let ?hs = "holdings (portfolio st)"
  note idx = findIndex_eq_int [OF assms(1)]
  from executeTrade_sell [OF assms(1-3), of env pr] assms(4)
  have r: "r = None"
    and c: "cash (portfolio st') = cash (portfolio st) + pr * sh"
    and hs': "holdings (portfolio st') =
      (if shares (?hs ! i) - sh = 0 then splice1 i ?hs
       else ?hs[i := (?hs ! i)\<lparr>shares := shares (?hs ! i) - sh\<rparr>])"
    by auto
  have part: "holdings (portfolio st') = ?hs[i := (?hs ! i)\<lparr>shares := shares (?hs ! i) - sh\<rparr>]"
    if "sh < shares (?hs ! i)"
    using hs' that by simp
  have full: "holdings (portfolio st') = take i ?hs @ drop (Suc i) ?hs"
    if "sh = shares (?hs ! i)"
    using hs' that by (simp add: splice1_def)
  have pos: "\<forall>h\<in>set (holdings (portfolio st')). 0 < shares h"
    if all: "\<forall>h\<in>set ?hs. 0 < shares h"
  proof (cases "sh = shares (?hs ! i)")
    case True
    have "set (take i ?hs @ drop (Suc i) ?hs) \<subseteq> set ?hs"
      using set_take_subset [of i ?hs] set_drop_subset [of "Suc i" ?hs] by auto
    with all full [OF True] show ?thesis by auto
  next
    case False
    with assms(3) have less: "sh < shares (?hs ! i)" by simp
    have "set (?hs[i := (?hs ! i)\<lparr>shares := shares (?hs ! i) - sh\<rparr>])
            \<subseteq> insert ((?hs ! i)\<lparr>shares := shares (?hs ! i) - sh\<rparr>) (set ?hs)"
      by (rule set_update_subset_insert)
    with all less part [OF less] show ?thesis by auto
  qed
  have closed: "tk \<notin> ticker ` set (holdings (portfolio st'))
      \<and> (\<forall>env' pr' sh'. 0 < sh' \<longrightarrow>
            executeTrade env' SELL tk pr' sh' st' = (Some (Alert ''Not enough shares!''), st'))"
    if eq: "sh = shares (?hs ! i)" and d: "distinct (map ticker ?hs)"
  proof -
    from distinct_first_only [OF d idx(1)] idx(2) full [OF eq]
    have gone: "tk \<notin> ticker ` set (holdings (portfolio st'))" by simp
    from findIndex_absent [OF gone]
    have "executeTrade env' SELL tk pr' sh' st' = (Some (Alert ''Not enough shares!''), st')"
      if "0 < sh'" for env' pr' sh'
      using that by (simp add: executeTrade_def Let_def)
    with gone show ?thesis by blast
  qed
  from r c part full pos closed show ?thesis by blast
qed

theorem sell_full_close_witness:
  "findIndex (\<lambda>h. ticker h = ''ABCD'') (holdings (portfolio heldState)) = int 0
   \<and> (0::real) < 10
   \<and> 10 = shares (holdings (portfolio heldState) ! 0)
   \<and> distinct (map ticker (holdings (portfolio heldState)))
   \<and> executeTrade sampleEnv SELL ''ABCD'' 12 10 heldState = (None, soldState)
   \<and> holdings (portfolio soldState) = []
   \<and> cash (portfolio soldState) = cash (portfolio heldState) + 12 * 10
   \<and> executeTrade sampleEnv SELL ''ABCD'' 12 1 soldState =
       (Some (Alert ''Not enough shares!''), soldState)"
proof -
  have eq: "10 = shares (holdings (portfolio heldState) ! 0)"
    and le: "10 \<le> shares (holdings (portfolio heldState) ! 0)"
    and d: "distinct (map ticker (holdings (portfolio heldState)))"
    by (simp_all add: heldState_def)
  have p: "(0::real) < 10" by simp
  note T = sell_full_close [OF heldState_index p le heldState_sell_all]
  from T eq d have "\<forall>env' pr' sh'. 0 < sh' \<longrightarrow>
      executeTrade env' SELL ''ABCD'' pr' sh' soldState =
        (Some (Alert ''Not enough shares!''), soldState)"
    by blast
  then have "executeTrade sampleEnv SELL ''ABCD'' 12 1 soldState =
       (Some (Alert ''Not enough shares!''), soldState)"
    by simp
  moreover have "holdings (portfolio soldState) = []" by (simp add: soldState_def)
  moreover from T have "cash (portfolio soldState) = cash (portfolio heldState) + 12 * 10"
    by blast
  ultimately show ?thesis
    using heldState_index eq d heldState_sell_all by simp
qed

text \<open>
  C10 (partial SELL). When \<open>0 < shares < held\<close>, only the share count of the holding
  changes: its ticker, average cost and current price are the ones before the trade, and
  the snapshot appended by the trade values the remaining shares at that earlier current
  price, not at the sell price: its total is the new cash plus the old holdings value
  minus \<open>shares\<close> times the old current price.
\<close>

theorem partial_sell_keeps_marks:
  assumes "findIndex (\<lambda>h. ticker h = tk) (holdings (portfolio st)) = int i"
    and "0 < sh" and "sh < shares (holdings (portfolio st) ! i)"
    and "executeTrade env SELL tk pr sh st = (r, st')"
  shows "r = None
    \<and> holdings (portfolio st') =
        (holdings (portfolio st))
          [i := (holdings (portfolio st) ! i)
             \<lparr>shares := shares (holdings (portfolio st) ! i) - sh\<rparr>]
    \<and> ticker (holdings (portfolio st') ! i) = tk
    \<and> shares (holdings (portfolio st') ! i) = shares (holdings (portfolio st) ! i) - sh
    \<and> avgCost (holdings (portfolio st') ! i) = avgCost (holdings (portfolio st) ! i)
    \<and> currentPrice (holdings (portfolio st') ! i) = currentPrice (holdings (portfolio st) ! i)
    \<and> totalValue (last (history (portfolio st'))) =
        (cash (portfolio st) + pr * sh)
        + ((\<Sum>h\<leftarrow>holdings (portfolio st). shares h * currentPrice h)
           - sh * currentPrice (holdings (portfolio st) ! i))"
proof -
  let ?hs = "holdings (portfolio st)"
  let ?h' = "(?hs ! i)\<lparr>shares := shares (?hs ! i) - sh\<rparr>"
  note idx = findIndex_eq_int [OF assms(1)]
  from assms(3) have le: "sh \<le> shares (?hs ! i)" and nz: "shares (?hs ! i) - sh \<noteq> 0"
    by simp_all
  from executeTrade_sell [OF assms(1,2) le, of env pr] assms(4) nz
  have r: "r = None"
    and hs': "holdings (portfolio st') = ?hs[i := ?h']"
    and tv: "totalValue (last (history (portfolio st'))) =
               (cash (portfolio st) + pr * sh) + holdingsValue (?hs[i := ?h'])"
    by auto
  have fields: "ticker (?hs[i := ?h'] ! i) = tk"
    "shares (?hs[i := ?h'] ! i) = shares (?hs ! i) - sh"
    "avgCost (?hs[i := ?h'] ! i) = avgCost (?hs ! i)"
    "currentPrice (?hs[i := ?h'] ! i) = currentPrice (?hs ! i)"
    using idx(1,2) by simp_all
  have "holdingsValue (?hs[i := ?h']) =
      (\<Sum>h\<leftarrow>?hs. shares h * currentPrice h) - shares (?hs ! i) * currentPrice (?hs ! i)
        + (shares (?hs ! i) - sh) * currentPrice (?hs ! i)"
    unfolding holdingsValue_sum
    using sum_list_map_update [OF idx(1), of "\<lambda>h. shares h * currentPrice h" ?h'] by simp
  also have "\<dots> = (\<Sum>h\<leftarrow>?hs. shares h * currentPrice h) - sh * currentPrice (?hs ! i)"
    by (simp add: algebra_simps)
  finally have "totalValue (last (history (portfolio st'))) =
      (cash (portfolio st) + pr * sh)
      + ((\<Sum>h\<leftarrow>?hs. shares h * currentPrice h) - sh * currentPrice (?hs ! i))"
    using tv by simp
  with r hs' fields show ?thesis by simp
qed

theorem partial_sell_keeps_marks_witness:
  "findIndex (\<lambda>h. ticker h = ''ABCD'') (holdings (portfolio heldState)) = int 0
   \<and> (0::real) < 4
   \<and> 4 < shares (holdings (portfolio heldState) ! 0)
   \<and> executeTrade sampleEnv SELL ''ABCD'' 12 4 heldState = (None, partlySoldState)
   \<and> avgCost (holdings (portfolio partlySoldState) ! 0) = 5
   \<and> currentPrice (holdings (portfolio partlySoldState) ! 0) = 5
   \<and> totalValue (last (history (portfolio partlySoldState))) = 100 + 12 * 4 + 6 * 5"
proof -
  have lt: "4 < shares (holdings (portfolio heldState) ! 0)"
    by (simp add: heldState_def)
  have p: "(0::real) < 4" by simp
  note T = partial_sell_keeps_marks [OF heldState_index p lt heldState_sell_part]
  from T have "avgCost (holdings (portfolio partlySoldState) ! 0) = 5"
    and "currentPrice (holdings (portfolio partlySoldState) ! 0) = 5"
    and "totalValue (last (history (portfolio partlySoldState))) = 100 + 12 * 4 + 6 * 5"
    by (simp_all add: heldState_def)
  with heldState_index p lt heldState_sell_part show ?thesis by simp
qed

subsection \<open>History track and advisory gateway\<close>

text \<open>
  C5 (replace, not append). Folding a prediction response whose points have the declared
  shape removes every snapshot flagged \<open>isPrediction\<close> and appends the supplied points, each
  flagged, in the order received. The snapshots that are not flagged are the same before
  and after, in value and order. A second fold therefore replaces the points of the
  first: after two consecutive responses of 7 points each the history has the actual
  snapshots followed by the 7 points of the second response, \<open>actualCount + 7\<close> entries.
\<close>

theorem prediction_replace_not_append:
  assumes "getProp result1 ''predictions'' = Inr (JArr ps1)"
    and "those (map tagPrediction ps1) = Some snaps1"
    and "getProp result2 ''predictions'' = Inr (JArr ps2)"
    and "those (map tagPrediction ps2) = Some snaps2"
  shows "fetchPrediction (Inr result1) prev =
           Some (prev\<lparr>history := filter notPrediction (history prev) @ snaps1\<rparr>)
    \<and> length snaps1 = length ps1
    \<and> (\<forall>k<length ps1. tagPrediction (ps1 ! k) = Some (snaps1 ! k))
    \<and> (\<forall>s\<in>set snaps1. isPrediction s = Some True)
    \<and> filter notPrediction (filter notPrediction (history prev) @ snaps1) =
        filter notPrediction (history prev)
    \<and> Option.bind (fetchPrediction (Inr result1) prev) (fetchPrediction (Inr result2)) =
        Some (prev\<lparr>history := filter notPrediction (history prev) @ snaps2\<rparr>)
    \<and> (length ps1 = 7 \<and> length ps2 = 7 \<longrightarrow>
        length (filter notPrediction (history prev) @ snaps2) =
          length (filter notPrediction (history prev)) + 7)"
proof -
  note one = fetchPrediction_fold [OF assms(1,2), of prev]
  note t1 = those_tagged [OF assms(2)]
  note t2 = those_tagged [OF assms(4)]
  have keep: "filter notPrediction (filter notPrediction (history prev) @ snaps1) =
      filter notPrediction (history prev)"
    using t1(4) by simp
  have two: "Option.bind (fetchPrediction (Inr result1) prev) (fetchPrediction (Inr result2)) =
      Some (prev\<lparr>history := filter notPrediction (history prev) @ snaps2\<rparr>)"
    using fetchPrediction_fold [OF assms(3,4),
        of "prev\<lparr>history := filter notPrediction (history prev) @ snaps1\<rparr>"]
    by (simp add: one t1(4))
  from one t1(1-3) keep two t2(1) show ?thesis by simp
qed

theorem prediction_replace_not_append_witness:
  "getProp (forecast pointsA) ''predictions'' = Inr (JArr pointsA)
   \<and> those (map tagPrediction pointsA) = Some snapshotsA
   \<and> getProp (forecast pointsB) ''predictions'' = Inr (JArr pointsB)
   \<and> those (map tagPrediction pointsB) = Some snapshotsB
   \<and> length pointsA = 7 \<and> length pointsB = 7
   \<and> length (history (portfolio heldState)) = 3
   \<and> length (filter notPrediction (history (portfolio heldState))) = 1
   \<and> Option.bind (fetchPrediction (Inr (forecast pointsA)) (portfolio heldState))
        (fetchPrediction (Inr (forecast pointsB))) =
       Some ((portfolio heldState)
          \<lparr>history := hd (history (portfolio heldState)) # snapshotsB\<rparr>)
   \<and> length (hd (history (portfolio heldState)) # snapshotsB) = 1 + 7"
proof -
  note T = prediction_replace_not_append
    [OF sample_forecasts(1) sample_forecasts(2) sample_forecasts(1) sample_forecasts(3),
     of "portfolio heldState"]
  have a: "filter notPrediction (history (portfolio heldState)) =
      [hd (history (portfolio heldState))]"
    by (simp add: heldState_def notPrediction_def)
  have l: "length pointsA = 7" "length pointsB = 7" "length snapshotsB = 7"
    "length (history (portfolio heldState)) = 3"
    by (simp_all add: pointsA_def pointsB_def snapshotsB_def heldState_def)
  from T have "Option.bind (fetchPrediction (Inr (forecast pointsA)) (portfolio heldState))
        (fetchPrediction (Inr (forecast pointsB))) =
       Some ((portfolio heldState)
          \<lparr>history := filter notPrediction (history (portfolio heldState)) @ snapshotsB\<rparr>)"
    by blast
  then have "Option.bind (fetchPrediction (Inr (forecast pointsA)) (portfolio heldState))
        (fetchPrediction (Inr (forecast pointsB))) =
       Some ((portfolio heldState)
          \<lparr>history := hd (history (portfolio heldState)) # snapshotsB\<rparr>)"
    unfolding a by simp
  with sample_forecasts a l show ?thesis by simp
qed

text \<open>
  C8, as stated, fails for a response that is valid JSON but not of the declared shape:
  the service checks nothing beyond \<^verbatim>\<open>JSON.parse\<close>. For the document \<^verbatim>\<open>{}\<close> discovery returns
  an object with no \<^verbatim>\<open>stocks\<close> at all (not the empty list), and ticker search and deep
  analysis return normally instead of raising.
\<close>

theorem schema_violation_passes_through:
  "responseText emptyObjectResponse = Some '' {} ''
   \<and> sampleParse (trim '' {} '') = Some (JObj [])
   \<and> discoverMicroCaps sampleParse (Inr emptyObjectResponse) =
       Inr (JObj [(''sources'', JArr [])])
   \<and> getProp (JObj [(''sources'', JArr [])]) ''stocks'' = Inr JUndefined
   \<and> searchStock sampleParse ''ABCD'' (Inr emptyObjectResponse) =
       Inr (JObj [(''stock'', JUndefined), (''sources'', JArr [])])
   \<and> analyzeStock sampleParse ''ABCD'' (Inr emptyObjectResponse) =
       Inr (JObj [(''sources'', JArr [])])"
  by (simp add: emptyObjectResponse_def sampleParse_def trim_def isSpace_def
      discoverMicroCaps_def searchStock_def analyzeStock_def parseText_def
      extractSources_def withSources_def)

text \<open>
  C8, amended. When the response text is missing or is not JSON (\<^verbatim>\<open>JSON.parse\<close> throws),
  discovery, market overview and prediction return their empty payloads (empty
  \<^verbatim>\<open>stocks\<close>, empty \<^verbatim>\<open>indices\<close>, empty \<^verbatim>\<open>predictions\<close> with a rationale) together with the
  extracted sources, while ticker search and deep analysis raise an \<^verbatim>\<open>Error\<close>.
\<close>

theorem unparsable_response_policy:
  assumes "responseText response = None
           \<or> (\<exists>t. responseText response = Some t \<and> JSON_parse (trim t) = None)"
  shows "discoverMicroCaps JSON_parse (Inr response) =
           Inr (JObj [(''stocks'', JArr []), (''sources'', extractSources response)])
    \<and> getMarketOverview JSON_parse (Inr response) =
           Inr (JObj [(''indices'', JArr []), (''sources'', extractSources response)])
    \<and> predictPortfolioValue JSON_parse (Inr response) =
           Inr (JObj [(''predictions'', JArr []),
                      (''rationale'', JStr ''Unable to generate forecast at this time.''),
                      (''sources'', extractSources response)])
    \<and> searchStock JSON_parse tk (Inr response) =
           Inl (Error (''Failed to find data for ticker: '' @ tk))
    \<and> analyzeStock JSON_parse tk (Inr response) =
           Inl (Error ''Failed to analyze stock data'')"
proof -
  from parseText_fails [OF assms] obtain e where "parseText JSON_parse response = Inl e" ..
  then show ?thesis
    by (simp add: discoverMicroCaps_def getMarketOverview_def predictPortfolioValue_def
        searchStock_def analyzeStock_def)
qed

theorem unparsable_response_policy_witness:
  "responseText proseResponse = Some ''Sorry, no forecast.''
   \<and> sampleParse (trim ''Sorry, no forecast.'') = None
   \<and> discoverMicroCaps sampleParse (Inr proseResponse) =
       Inr (JObj [(''stocks'', JArr []),
                  (''sources'', JArr [JObj [(''title'', JStr ''Source''),
                                            (''uri'', JStr ''https://example.com/a'')]])])
   \<and> searchStock sampleParse ''ABCD'' (Inr proseResponse) =
       Inl (Error ''Failed to find data for ticker: ABCD'')
   \<and> analyzeStock sampleParse ''ABCD'' (Inr proseResponse) =
       Inl (Error ''Failed to analyze stock data'')"
proof -
  have t: "responseText proseResponse = Some ''Sorry, no forecast.''"
    by (simp add: proseResponse_def)
  have p: "sampleParse (trim ''Sorry, no forecast.'') = None"
    by (simp add: sampleParse_def trim_def isSpace_def)
  have src: "extractSources proseResponse =
      JArr [JObj [(''title'', JStr ''Source''), (''uri'', JStr ''https://example.com/a'')]]"
    by (simp add: extractSources_def proseResponse_def sourceOf_def)
  from t p have pre: "responseText proseResponse = None
      \<or> (\<exists>t. responseText proseResponse = Some t \<and> sampleParse (trim t) = None)"
    by simp
  from unparsable_response_policy [OF pre, of "''ABCD''"] t p src show ?thesis
    by simp
qed

text \<open>
  C9, as stated, fails for a prediction request that is rejected before any response
  arrives (network or provider error): \<^verbatim>\<open>predictPortfolioValue\<close> passes the rejection on,
  the \<^verbatim>\<open>catch\<close> of \<^verbatim>\<open>fetchPrediction\<close> logs it, and the stale prediction suffix stays in
  the history.
\<close>

theorem rejected_prediction_leaves_stale_suffix:
  "predictPortfolioValue sampleParse (Inl (Rejected ''Failed to fetch'')) =
     Inl (Rejected ''Failed to fetch'')
   \<and> fetchPrediction (predictPortfolioValue sampleParse (Inl (Rejected ''Failed to fetch'')))
       (portfolio heldState) = Some (portfolio heldState)
   \<and> isPrediction (history (portfolio heldState) ! 1) = Some True
   \<and> isPrediction (history (portfolio heldState) ! 2) = Some True
   \<and> history (portfolio heldState) \<noteq> filter notPrediction (history (portfolio heldState))"
  by (simp add: predictPortfolioValue_def fetchPrediction_def heldState_def notPrediction_def)

text \<open>
  C9, amended. When the response to a prediction request arrives but its text is missing
  or is not JSON, the service returns an empty predictions list with the rationale
  \<^verbatim>\<open>Unable to generate forecast at this time.\<close>, and folding that result leaves the history
  with its actual snapshots only: every snapshot flagged \<open>isPrediction\<close> is removed and
  none is appended. When the request itself is rejected, the portfolio is left as it was.
\<close>

theorem failed_prediction_clears_suffix:
  assumes "responseText response = None
           \<or> (\<exists>t. responseText response = Some t \<and> JSON_parse (trim t) = None)"
  shows "predictPortfolioValue JSON_parse (Inr response) =
           Inr (JObj [(''predictions'', JArr []),
                      (''rationale'', JStr ''Unable to generate forecast at this time.''),
                      (''sources'', extractSources response)])
    \<and> fetchPrediction (predictPortfolioValue JSON_parse (Inr response)) prev =
        Some (prev\<lparr>history := filter notPrediction (history prev)\<rparr>)
    \<and> (\<forall>h\<in>set (filter notPrediction (history prev)). isPrediction h \<noteq> Some True)
    \<and> fetchPrediction (predictPortfolioValue JSON_parse (Inl err)) prev = Some prev"
proof -
  from parseText_fails [OF assms] obtain e where "parseText JSON_parse response = Inl e" ..
  then have fallback: "predictPortfolioValue JSON_parse (Inr response) =
           Inr (JObj [(''predictions'', JArr []),
                      (''rationale'', JStr ''Unable to generate forecast at this time.''),
                      (''sources'', extractSources response)])"
    by (simp add: predictPortfolioValue_def)
  have "fetchPrediction (predictPortfolioValue JSON_parse (Inr response)) prev =
        Some (prev\<lparr>history := filter notPrediction (history prev)\<rparr>)"
    unfolding fallback by (simp add: fetchPrediction_def)
  moreover have "\<forall>h\<in>set (filter notPrediction (history prev)). isPrediction h \<noteq> Some True"
    by (simp add: notPrediction_def)
  moreover have "fetchPrediction (predictPortfolioValue JSON_parse (Inl err)) prev = Some prev"
    by (simp add: predictPortfolioValue_def fetchPrediction_def)
  ultimately show ?thesis using fallback by simp
qed

theorem failed_prediction_clears_suffix_witness:
  "responseText proseResponse = Some ''Sorry, no forecast.''
   \<and> sampleParse (trim ''Sorry, no forecast.'') = None
   \<and> length (history (portfolio heldState)) = 3
   \<and> fetchPrediction (predictPortfolioValue sampleParse (Inr proseResponse)) (portfolio heldState) =
       Some ((portfolio heldState)\<lparr>history := [hd (history (portfolio heldState))]\<rparr>)"
proof -
  have t: "responseText proseResponse = Some ''Sorry, no forecast.''"
    by (simp add: proseResponse_def)
  have p: "sampleParse (trim ''Sorry, no forecast.'') = None"
    by (simp add: sampleParse_def trim_def isSpace_def)
  from t p have pre: "responseText proseResponse = None
      \<or> (\<exists>t. responseText proseResponse = Some t \<and> sampleParse (trim t) = None)"
    by simp
  have a: "filter notPrediction (history (portfolio heldState)) =
      [hd (history (portfolio heldState))]"
    and l: "length (history (portfolio heldState)) = 3"
    by (simp_all add: heldState_def notPrediction_def)
  from failed_prediction_clears_suffix [OF pre, of "portfolio heldState"]
  have "fetchPrediction (predictPortfolioValue sampleParse (Inr proseResponse)) (portfolio heldState) =
       Some ((portfolio heldState)\<lparr>history := filter notPrediction (history (portfolio heldState))\<rparr>)"
    by blast
  then show ?thesis unfolding a using t p l by simp
qed

end
